theory Spec2Isabelle
  imports Complex_Main
begin

section \<open>Data model\<close>

text \<open>
  The tables of the store, one record per row. A price is a decimal with two places, as
  the DECIMAL(10, 2) column of the cart migration has it; it is kept as the integer
  number of hundredths (\<open>money\<close>), so 19.99 is 1999. The total of an order is a DECIMAL
  column without a scale, which keeps every digit it is handed; it is a rational number
  of hundredths (\<open>amount\<close>). Quantities and stock are INTEGER columns. Timestamps are
  left out: no handler below reads them.
\<close>

type_synonym money = int

type_synonym amount = rat

record user =
  user_id :: int
  user_email :: string

text \<open>
  Modelled from the spec: the Product model file and the migration of its table are not
  among the sources. The spec gives a product an id, a name, a unit price (fixed-point
  decimal) and a stock quantity (integer); these are the only fields the order and cart
  controllers read or write. The price has two places, as the cart price has and as the
  example of the product routes (499.99) shows.
\<close>

record product =
  product_id :: int
  product_name :: string
  price :: money
  stock :: int

record order =
  order_id :: int
  order_userId :: int
  order_productId :: int
  totalAmount :: amount
  order_quantity :: int
  order_status :: string
  address :: string
  city :: string
  zipcode :: string
  deliveryDate :: string
  courierName :: string

text \<open>
  Modelled from the spec: the Cart model file is not among the sources (its migration
  is). A cart row has an id, a user, a product, a quantity (INTEGER) and a price
  (DECIMAL(10, 2)), the total of the line. The quantity is read back as a number, the
  price as the text of the decimal.
\<close>

record cart =
  cart_id :: int
  cart_userId :: int
  cart_productId :: int
  cart_quantity :: int
  cart_price :: money

text \<open>
  The store: the four tables in insertion order, as committed; the two auto-increment
  counters; and the number of transactions that were begun and neither committed nor
  rolled back. What such an open transaction holds on to (a connection of the pool, the
  lock on a row it wrote) is not modelled: a store call that cannot go on because of it
  is a store call that fails, see the faults below. Whether a counter keeps a value
  that was drawn by a transaction that never commits is left to the store; no statement
  below depends on it.
\<close>

record db =
  users :: "user list"
  products :: "product list"
  orders :: "order list"
  carts :: "cart list"
  order_seq :: int
  cart_seq :: int
  open_txns :: nat

subsection \<open>Responses\<close>

record order_view =
  ov_email :: string
  ov_productName :: string
  ov_quantity :: int
  ov_totalAmount :: amount
  ov_status :: string
  ov_address :: string
  ov_city :: string
  ov_zipcode :: string
  ov_deliveryDate :: string
  ov_courierName :: string

datatype body =
    NoBody
  | OrderBody order
  | OrderData "order_view list"
  | CancelInfo int string
  | CartItem cart
  | CartInstance int int int int string
  | CartItems "(cart \<times> product option) list"

text \<open>
  \<open>CartInstance i u p q t\<close> is a cart instance that was changed in memory and saved, with
  its id, user, product and quantity and with the text \<open>t\<close> it holds as its price.
\<close>

text \<open>
  \<open>Reply s m b\<close> is \<open>res.status(s).json({message: m, ...b})\<close>. \<open>Rejected\<close> is a handler
  whose promise rejects before any response is written (an exception outside its
  \<open>try\<close> block).
\<close>

datatype reply = Reply nat string body | Rejected

fun status :: "reply \<Rightarrow> nat option" where
  "status (Reply s m b) = Some s"
| "status Rejected = None"

fun message :: "reply \<Rightarrow> string" where
  "message (Reply s m b) = m"
| "message Rejected = []"

definition internal_error :: reply where
  "internal_error = Reply 500 ''Internal server error'' NoBody"

subsection \<open>Store calls and their failures\<close>

text \<open>
  Every awaited store call may throw. A fault names the first call of a request that
  throws when it is reached (\<open>None\<close>: the store answers every call). One fault per
  request is enough, since a handler stops at the first exception.
\<close>

datatype store_call =
    Begin | Commit
  | UserFindOne | ProductFindOne | ProductSave
  | OrderCreate | OrderFindOne | OrderFindAll | OrderUpdate
  | CartFindOne | CartFindAll | CartSave | CartCreate | CartDestroy

type_synonym fault = "store_call option"

definition findUser :: "user list \<Rightarrow> string \<Rightarrow> user option" where
  "findUser us e = find (\<lambda>u. user_email u = e) us"

definition findProduct :: "product list \<Rightarrow> int \<Rightarrow> product option" where
  "findProduct ps i = find (\<lambda>p. product_id p = i) ps"

definition findOrder :: "order list \<Rightarrow> int \<Rightarrow> int \<Rightarrow> order option" where
  "findOrder os i uid = find (\<lambda>x. order_id x = i \<and> order_userId x = uid) os"

definition findCart :: "cart list \<Rightarrow> int \<Rightarrow> int \<Rightarrow> cart option" where
  "findCart cs uid pid = find (\<lambda>c. cart_userId c = uid \<and> cart_productId c = pid) cs"

definition findCartById :: "cart list \<Rightarrow> int \<Rightarrow> int \<Rightarrow> cart option" where
  "findCartById cs i uid = find (\<lambda>c. cart_id c = i \<and> cart_userId c = uid) cs"

text \<open>
  \<open>product.save()\<close> after \<open>product.stock -= quantity\<close> writes the changed column of
  the row with the instance's primary key: the value computed from the instance that was
  read, not a decrement relative to what the table holds at that moment.
\<close>

definition saveStock :: "product \<Rightarrow> product list \<Rightarrow> product list" where
  "saveStock p ps =
     map (\<lambda>x. if product_id x = product_id p then x\<lparr>stock := stock p\<rparr> else x) ps"

definition saveCart :: "cart \<Rightarrow> cart list \<Rightarrow> cart list" where
  "saveCart c cs =
     map (\<lambda>x. if cart_id x = cart_id c
               then x\<lparr>cart_quantity := cart_quantity c, cart_price := cart_price c\<rparr>
               else x) cs"

subsection \<open>Numbers in messages\<close>

text \<open>
  A template literal renders an integer in decimal, with a leading minus sign when it
  is negative.
\<close>

definition digit :: "nat \<Rightarrow> char" where
  "digit n = ''0123456789'' ! (n mod 10)"

function show_nat :: "nat \<Rightarrow> string" where
  "show_nat n = (if n < 10 then [digit n] else show_nat (n div 10) @ [digit n])"
  by pat_completeness auto
termination
  by (relation "measure id") auto

declare show_nat.simps [simp del]

definition show_int :: "int \<Rightarrow> string" where
  "show_int i = (if i < 0 then CHR ''-'' # show_nat (nat (- i)) else show_nat (nat i))"

text \<open>Reading a string of decimal digits, to check the rendering against.\<close>

definition digit_value :: "char \<Rightarrow> nat" where
  "digit_value c = of_char c - 48"

definition read_nat :: "string \<Rightarrow> nat" where
  "read_nat s = foldl (\<lambda>a c. 10 * a + digit_value c) 0 s"

subsection \<open>Numbers of the program\<close>

text \<open>
  A number of the program is a binary64 floating-point number. A finite one is kept as
  a pair \<open>(m, e)\<close> for the value \<open>m * 2 ^ e\<close>, with \<open>2 ^ 52 \<le> \<bar>m\<bar> < 2 ^ 53\<close>, or \<open>(0, 0)\<close>
  for zero. The exponent is not bounded here: binary64 has these values for magnitudes
  from \<open>2 ^ - 1022\<close> up to \<open>2 ^ 1024\<close>, which prices of two places and quantities of an
  INTEGER column, and their products, do not leave.
\<close>

type_synonym double = "int \<times> int"

text \<open>\<open>places b n\<close> is the number of digits of \<open>n\<close> in base \<open>b\<close>.\<close>

function places :: "int \<Rightarrow> int \<Rightarrow> nat" where
  "places b n = (if n \<le> 0 \<or> b < 2 then 0 else Suc (places b (n div b)))"
  by pat_completeness auto
termination
  by (relation "measure (\<lambda>(b, n). nat n)") (auto simp: int_div_less_self)

declare places.simps [simp del]

text \<open>For positive \<open>x\<close> and \<open>y\<close>, the largest \<open>k\<close> with \<open>b ^ k \<le> x / y\<close>.\<close>

definition log_floor :: "int \<Rightarrow> int \<Rightarrow> int \<Rightarrow> int" where
  "log_floor b x y =
     (let k = int (places b x) - int (places b y)
      in if (if 0 \<le> k then y * b ^ nat k \<le> x else y \<le> x * b ^ nat (- k)) then k else k - 1)"

text \<open>The integer nearest to \<open>x / y\<close>, the even one of two that are equally near.\<close>

definition round_half_even :: "int \<Rightarrow> int \<Rightarrow> int" where
  "round_half_even x y =
     (let q = x div y; r = x mod y
      in if 2 * r < y then q else if y < 2 * r then q + 1 else if even q then q else q + 1)"

text \<open>The double nearest to \<open>x / y\<close>, for \<open>0 \<le> x\<close> and \<open>0 < y\<close>.\<close>

definition nearest_double :: "int \<Rightarrow> int \<Rightarrow> double" where
  "nearest_double x y =
     (if x \<le> 0 then (0, 0)
      else
        let e = log_floor 2 x y - 52;
            m = (if 0 \<le> e then round_half_even x (y * 2 ^ nat e)
                 else round_half_even (x * 2 ^ nat (- e)) y)
        in if m = 2 ^ 53 then (2 ^ 52, e + 1) else (m, e))"

text \<open>
  \<open>to_number x y\<close> is the number that the decimal or integer \<open>x / y\<close> becomes when the
  program computes with it: \<open>Number(product.price)\<close>, and the implicit conversion of
  the operands of \<open>*\<close>.
\<close>

definition to_number :: "int \<Rightarrow> int \<Rightarrow> double" where
  "to_number x y =
     (let (m, e) = nearest_double \<bar>x\<bar> y in (if x < 0 then - m else m, e))"

text \<open>The product of two numbers: the exact product, rounded.\<close>

definition multiply :: "double \<Rightarrow> double \<Rightarrow> double" where
  "multiply a b =
     (let m = fst a * fst b; e = snd a + snd b
      in if 0 \<le> e then to_number (m * 2 ^ nat e) 1 else to_number m (2 ^ nat (- e)))"

text \<open>
  The decimal that stands for a number, as a pair \<open>(s, j)\<close> for \<open>s * 10 ^ j\<close>: of the
  decimals with the fewest digits whose nearest double is the number, the one nearest
  to it. The search tries one digit, then two, and so on; seventeen always suffice.
\<close>

definition decimal_double :: "int \<Rightarrow> int \<Rightarrow> double" where
  "decimal_double s j =
     (if 0 \<le> j then nearest_double (s * 10 ^ nat j) 1 else nearest_double s (10 ^ nat (- j)))"

function shortest_from :: "nat \<Rightarrow> nat \<Rightarrow> double \<Rightarrow> int \<Rightarrow> int \<Rightarrow> int \<Rightarrow> int \<times> int" where
  "shortest_from fuel k x a b e =
     (let j = e - int k + 1;
          n = (if 0 \<le> j then a else a * 10 ^ nat (- j));
          d = (if 0 \<le> j then b * 10 ^ nat j else b);
          lo = n div d;
          r = n mod d;
          lo_first = (2 * r < d \<or> (2 * r = d \<and> even lo))
      in if fuel = 0 then (if lo_first then (lo, j) else (lo + 1, j))
         else if decimal_double lo j = x \<and> (lo_first \<or> decimal_double (lo + 1) j \<noteq> x)
           then (lo, j)
         else if decimal_double (lo + 1) j = x then (lo + 1, j)
         else shortest_from (fuel - 1) (Suc k) x a b e)"
  by pat_completeness auto
termination
  by (relation "measure (\<lambda>(fuel, k, x, a, b, e). fuel)") auto

declare shortest_from.simps [simp del]

function strip_zeros :: "int \<Rightarrow> int \<Rightarrow> int \<times> int" where
  "strip_zeros s j =
     (if s \<noteq> 0 \<and> s mod 10 = 0 then strip_zeros (s div 10) (j + 1) else (s, j))"
  by pat_completeness auto
termination
  by (relation "measure (\<lambda>(s, j). nat \<bar>s\<bar>)") auto

declare strip_zeros.simps [simp del]

definition shortest :: "double \<Rightarrow> int \<times> int" where
  "shortest x =
     (let m = \<bar>fst x\<bar>;
          a = (if 0 \<le> snd x then m * 2 ^ nat (snd x) else m);
          b = (if 0 \<le> snd x then 1 else 2 ^ nat (- snd x));
          (s, j) = shortest_from 16 1 (m, snd x) a b (log_floor 10 a b)
      in if m = 0 then (0, 0)
         else let (s', j') = strip_zeros s j in (if fst x < 0 then - s' else s', j'))"

text \<open>The rational number that a decimal \<open>(s, j)\<close> is.\<close>

definition decimal_value :: "int \<times> int \<Rightarrow> rat" where
  "decimal_value d =
     (if 0 \<le> snd d then of_int (fst d * 10 ^ nat (snd d))
      else of_int (fst d) / of_int (10 ^ nat (- snd d)))"

text \<open>
  \<open>product.price * quantity\<close> in placeOrder (line 54), as the order table keeps it: the
  price, a decimal text, and the quantity become numbers, the product is a number, and
  the insert hands its decimal to a column without a scale. In hundredths.
\<close>

definition order_total :: "money \<Rightarrow> int \<Rightarrow> amount" where
  "order_total c q = 100 * decimal_value (shortest (multiply (to_number c 100) (to_number q 1)))"

subsection \<open>Numbers as text\<close>

function digits :: "int \<Rightarrow> string" where
  "digits n = (if n < 10 then [digit (nat n)] else digits (n div 10) @ [digit (nat (n mod 10))])"
  by pat_completeness auto
termination
  by (relation "measure nat") auto

declare digits.simps [simp del]

definition read_digits :: "string \<Rightarrow> int" where
  "read_digits s = foldl (\<lambda>a c. 10 * a + int (digit_value c)) 0 s"

text \<open>
  The text of a number, as string concatenation makes it: the digits of its decimal,
  written plainly when the decimal point falls within 21 digits before or 6 zeros after
  it, and with an exponent otherwise.
\<close>

definition number_text :: "double \<Rightarrow> string" where
  "number_text x =
     (let (s, j) = shortest x;
          ds = digits \<bar>s\<bar>;
          k = int (length ds);
          n = k + j;
          body =
            (if k \<le> n \<and> n \<le> 21 then ds @ replicate (nat (n - k)) CHR ''0''
             else if 0 < n \<and> n \<le> 21 then take (nat n) ds @ ''.'' @ drop (nat n) ds
             else if - 6 < n \<and> n \<le> 0 then ''0.'' @ replicate (nat (- n)) CHR ''0'' @ ds
             else (if k = 1 then ds else take 1 ds @ ''.'' @ drop 1 ds) @ ''e'' @
                  (if n - 1 < 0 then ''-'' else ''+'') @ digits \<bar>n - 1\<bar>)
      in if s < 0 then CHR ''-'' # body else body)"

text \<open>The text in which the store hands out a DECIMAL(10, 2): always two places.\<close>

definition numeric2_text :: "money \<Rightarrow> string" where
  "numeric2_text c =
     (if c < 0 then ''-'' else []) @ digits (\<bar>c\<bar> div 100) @ ''.'' @
     [digit (nat (\<bar>c\<bar> div 10 mod 10)), digit (nat (\<bar>c\<bar> mod 10))]"

text \<open>
  What the store reads in a text handed to a decimal column: a sign, digits with at most
  one point among them, and an exponent, or nothing (\<open>None\<close>: the statement fails). The
  texts read below begin with a decimal of two places and hold no blanks.
\<close>

definition is_digit :: "char \<Rightarrow> bool" where
  "is_digit c \<longleftrightarrow> 48 \<le> (of_char c :: nat) \<and> (of_char c :: nat) \<le> 57"

definition signed :: "string \<Rightarrow> bool \<times> string" where
  "signed t =
     (case t of
        [] \<Rightarrow> (False, [])
      | c # r \<Rightarrow>
          if c = CHR ''-'' then (True, r) else if c = CHR ''+'' then (False, r) else (False, t))"

definition numeric_in :: "string \<Rightarrow> (int \<times> int) option" where
  "numeric_in t =
     (let (neg, t1) = signed t;
          d1 = takeWhile is_digit t1;
          t2 = dropWhile is_digit t1;
          d2 = (case t2 of [] \<Rightarrow> []
                | c # r \<Rightarrow> if c = CHR ''.'' then takeWhile is_digit r else []);
          t3 = (case t2 of [] \<Rightarrow> []
                | c # r \<Rightarrow> if c = CHR ''.'' then dropWhile is_digit r else t2);
          m = read_digits (d1 @ d2);
          s = (if neg then - m else m)
      in if d1 @ d2 = [] then None
         else (case t3 of
           [] \<Rightarrow> Some (s, - int (length d2))
         | c # r \<Rightarrow>
             if c = CHR ''e'' \<or> c = CHR ''E'' then
               (let (eneg, r1) = signed r;
                    d3 = takeWhile is_digit r1;
                    ex = read_digits d3
                in if d3 = [] \<or> dropWhile is_digit r1 \<noteq> [] then None
                   else Some (s, (if eneg then - ex else ex) - int (length d2)))
             else None))"

text \<open>
  A decimal as a DECIMAL(10, 2) column keeps it: rounded to two places, a half away from
  zero, and refused (\<open>None\<close>) when that needs more than ten digits.
\<close>

definition numeric_10_2 :: "int \<times> int \<Rightarrow> money option" where
  "numeric_10_2 d =
     (let a = \<bar>fst d\<bar>;
          j = snd d;
          h = (if - 2 \<le> j then a * 10 ^ nat (j + 2)
               else (2 * a + 10 ^ nat (- j - 2)) div (2 * 10 ^ nat (- j - 2)))
      in if h < 10 ^ 10 then Some (if fst d < 0 then - h else h) else None)"

section \<open>Order workflow\<close>

record order_req =
  rq_email :: string
  rq_productId :: int
  rq_quantity :: int
  rq_address :: string
  rq_city :: string
  rq_zipcode :: string
  rq_deliveryDate :: string
  rq_courierName :: string

text \<open>
  \<open>!x\<close> holds of a field that is absent, an empty string or the number 0. The handlers
  use a field of the request only after this test, so an absent field is modelled by
  the empty string or by 0.
\<close>

definition order_req_incomplete :: "order_req \<Rightarrow> bool" where
  "order_req_incomplete rq \<longleftrightarrow>
     rq_email rq = [] \<or> rq_productId rq = 0 \<or> rq_quantity rq = 0 \<or> rq_address rq = [] \<or>
     rq_city rq = [] \<or> rq_zipcode rq = [] \<or> rq_deliveryDate rq = [] \<or> rq_courierName rq = []"

text \<open>
  placeOrder, lines 15 to 46: the field check and the two lookups. Nothing is written.
  The product is read without the transaction and without a lock.
\<close>

definition placeOrder_lookup :: "fault \<Rightarrow> order_req \<Rightarrow> db \<Rightarrow> reply + (user \<times> product)" where
  "placeOrder_lookup f rq d =
     (if order_req_incomplete rq then
        Inl (Reply 400 ''All fields (email, productId, quantity, address, city, zipcode, deliveryDate, courierName) are required'' NoBody)
      else if f = Some UserFindOne then Inl internal_error
      else (case findUser (users d) (rq_email rq) of
        None \<Rightarrow> Inl (Reply 404 ''User not found'' NoBody)
      | Some u \<Rightarrow>
          if f = Some ProductFindOne then Inl internal_error
          else (case findProduct (products d) (rq_productId rq) of
            None \<Rightarrow> Inl (Reply 404 ''Product not found'' NoBody)
          | Some p \<Rightarrow> Inr (u, p))))"

text \<open>
  placeOrder, lines 48 to 85, on the user and product instances that were read: the
  stock check, the decrement, the insert and the commit. The writes go to the
  transaction; the store keeps them only at \<open>t.commit()\<close>. The \<open>catch\<close> block answers
  500 and neither commits nor rolls back, and so do the early returns: the transaction
  stays open and its writes are never made durable. The total is a product of numbers,
  not of decimals.
\<close>

definition placeOrder_reserve :: "fault \<Rightarrow> order_req \<Rightarrow> user \<Rightarrow> product \<Rightarrow> db \<Rightarrow> reply \<times> db" where
  "placeOrder_reserve f rq u p d =
     (if stock p < rq_quantity rq then
        (Reply 400 (''Only '' @ show_int (stock p) @ '' items left in stock'') NoBody, d)
      else
        let total = order_total (price p) (rq_quantity rq);
            p' = p\<lparr>stock := stock p - rq_quantity rq\<rparr>
        in if f = Some ProductSave then (internal_error, d)
        else
          let t1 = d\<lparr>products := saveStock p' (products d)\<rparr>
          in if f = Some OrderCreate then (internal_error, d)
          else
            let ord = \<lparr>order_id = order_seq t1, order_userId = user_id u,
                       order_productId = rq_productId rq, totalAmount = total,
                       order_quantity = rq_quantity rq, order_status = ''Pending'',
                       address = rq_address rq, city = rq_city rq, zipcode = rq_zipcode rq,
                       deliveryDate = rq_deliveryDate rq, courierName = rq_courierName rq\<rparr>;
                t2 = t1\<lparr>orders := orders t1 @ [ord], order_seq := order_seq t1 + 1\<rparr>
            in if f = Some Commit then (internal_error, d)
            else (Reply 201 ''Order placed successfully'' (OrderBody ord),
                  t2\<lparr>open_txns := open_txns t2 - 1\<rparr>))"

text \<open>
  The whole handler. \<open>sequelize.transaction()\<close> on line 11 is outside the \<open>try\<close>.
\<close>

definition placeOrder :: "fault \<Rightarrow> order_req \<Rightarrow> db \<Rightarrow> reply \<times> db" where
  "placeOrder f rq d =
     (if f = Some Begin then (Rejected, d)
      else
        let d0 = d\<lparr>open_txns := open_txns d + 1\<rparr>
        in (case placeOrder_lookup f rq d0 of
          Inl r \<Rightarrow> (r, d0)
        | Inr (u, p) \<Rightarrow> placeOrder_reserve f rq u p d0))"

text \<open>
  getallOrdersByEmail. The joined product of an order row is null when the product row is
  gone, and \<open>order.product.name\<close> then throws inside the \<open>try\<close>.
\<close>

definition order_view_of :: "user \<Rightarrow> product \<Rightarrow> order \<Rightarrow> order_view" where
  "order_view_of u p x =
     \<lparr>ov_email = user_email u, ov_productName = product_name p,
      ov_quantity = order_quantity x, ov_totalAmount = totalAmount x,
      ov_status = order_status x, ov_address = address x, ov_city = city x,
      ov_zipcode = zipcode x, ov_deliveryDate = deliveryDate x,
      ov_courierName = courierName x\<rparr>"

fun order_views :: "user \<Rightarrow> product list \<Rightarrow> order list \<Rightarrow> order_view list option" where
  "order_views u ps [] = Some []"
| "order_views u ps (x # xs) =
     (case findProduct ps (order_productId x) of
        None \<Rightarrow> None
      | Some p \<Rightarrow> map_option ((#) (order_view_of u p x)) (order_views u ps xs))"

definition getallOrdersByEmail :: "fault \<Rightarrow> string \<Rightarrow> db \<Rightarrow> reply \<times> db" where
  "getallOrdersByEmail f email d =
     (if email = [] then (Reply 400 ''Email is required'' NoBody, d)
      else if f = Some UserFindOne then (internal_error, d)
      else (case findUser (users d) email of
        None \<Rightarrow> (Reply 400 ''User not found'' NoBody, d)
      | Some u \<Rightarrow>
          if f = Some OrderFindAll then (internal_error, d)
          else
            let found = filter (\<lambda>x. order_userId x = user_id u) (orders d)
            in if length found = 0 then
                 (Reply 404 ''No orders found for this user'' NoBody, d)
               else (case order_views u (products d) found of
                 None \<Rightarrow> (internal_error, d)
               | Some vs \<Rightarrow>
                   (Reply 200 ''Order History retrieved successfully'' (OrderData vs), d))))"

text \<open>
  cancelOrderById. \<open>Order.update\<close> sets the status of the rows with this id and owner;
  no other table is written.
\<close>

definition cancelOrderById :: "fault \<Rightarrow> string \<Rightarrow> int \<Rightarrow> db \<Rightarrow> reply \<times> db" where
  "cancelOrderById f email orderId d =
     (if f = Some UserFindOne then (internal_error, d)
      else (case findUser (users d) email of
        None \<Rightarrow> (Reply 404 ''User not found with the given email'' NoBody, d)
      | Some u \<Rightarrow>
          if f = Some OrderFindOne then (internal_error, d)
          else (case findOrder (orders d) orderId (user_id u) of
            None \<Rightarrow>
              (Reply 404 ''Order not found for the given email and orderId'' NoBody, d)
          | Some x \<Rightarrow>
              if order_status x = ''Cancelled'' then
                (Reply 400 ''Order is already cancelled'' NoBody, d)
              else if f = Some OrderUpdate then (internal_error, d)
              else
                (Reply 200 ''Order cancelled successfully'' (CancelInfo orderId (user_email u)),
                 d\<lparr>orders :=
                     map (\<lambda>y. if order_id y = orderId \<and> order_userId y = user_id u
                               then y\<lparr>order_status := ''Cancelled''\<rparr> else y)
                       (orders d)\<rparr>))))"

section \<open>Cart store\<close>

record cart_req =
  cq_email :: string
  cq_productId :: int
  cq_quantity :: int

definition cart_req_incomplete :: "cart_req \<Rightarrow> bool" where
  "cart_req_incomplete rq \<longleftrightarrow> cq_email rq = [] \<or> cq_productId rq = 0 \<or> cq_quantity rq = 0"

text \<open>
  addToCart. The stock is compared with the quantity of this request; the product is not
  written. \<open>totalPrice\<close> is a number. A new row is created with it: the store rounds
  it to two places, which is the exact product of the price and the quantity. In a row
  that exists, \<open>cartItem.price\<close> is the text of a decimal, and \<open>+=\<close> (line 404) appends
  the text of the number to it; the store reads the result as a decimal of two places,
  or fails, and then \<open>save\<close> throws and nothing is written.
\<close>

definition addToCart :: "fault \<Rightarrow> cart_req \<Rightarrow> db \<Rightarrow> reply \<times> db" where
  "addToCart f rq d =
     (if cart_req_incomplete rq then
        (Reply 400 ''Email, ProductId, and quantity are required'' NoBody, d)
      else if f = Some UserFindOne then (internal_error, d)
      else (case findUser (users d) (cq_email rq) of
        None \<Rightarrow> (Reply 404 ''User not found'' NoBody, d)
      | Some u \<Rightarrow>
          if f = Some ProductFindOne then (internal_error, d)
          else (case findProduct (products d) (cq_productId rq) of
            None \<Rightarrow> (Reply 404 ''Product not found'' NoBody, d)
          | Some p \<Rightarrow>
              let availableStock = stock p;
                  requestedQuantity = cq_quantity rq
              in if availableStock < requestedQuantity then
                   (Reply 400 (''Only '' @ show_int (stock p) @ '' items left in stock'') NoBody, d)
                 else
                   let totalPrice = multiply (to_number (price p) 100) (to_number requestedQuantity 1)
                   in if f = Some CartFindOne then (internal_error, d)
                   else (case findCart (carts d) (user_id u) (cq_productId rq) of
                     Some c \<Rightarrow>
                       let quantity' = cart_quantity c + requestedQuantity;
                           price' = numeric2_text (cart_price c) @ number_text totalPrice
                       in if f = Some CartSave then (internal_error, d)
                       else (case Option.bind (numeric_in price') numeric_10_2 of
                         None \<Rightarrow> (internal_error, d)
                       | Some m \<Rightarrow>
                           (Reply 200 ''Product added to cart successfully''
                              (CartInstance (cart_id c) (cart_userId c) (cart_productId c)
                                 quantity' price'),
                            d\<lparr>carts :=
                                saveCart (c\<lparr>cart_quantity := quantity', cart_price := m\<rparr>)
                                  (carts d)\<rparr>))
                   | None \<Rightarrow>
                       if f = Some CartCreate then (internal_error, d)
                       else
                         let c' = \<lparr>cart_id = cart_seq d, cart_userId = user_id u,
                                   cart_productId = cq_productId rq,
                                   cart_quantity = requestedQuantity,
                                   cart_price = price p * requestedQuantity\<rparr>
                         in (Reply 200 ''Product added to cart successfully'' (CartItem c'),
                             d\<lparr>carts := carts d @ [c'], cart_seq := cart_seq d + 1\<rparr>)))))"

text \<open>getallCartItems: the rows of the user, each with its product; 200 also when empty.\<close>

definition getallCartItems :: "fault \<Rightarrow> string \<Rightarrow> db \<Rightarrow> reply \<times> db" where
  "getallCartItems f email d =
     (if email = [] then (Reply 400 ''Email is required'' NoBody, d)
      else if f = Some UserFindOne then (internal_error, d)
      else (case findUser (users d) email of
        None \<Rightarrow> (Reply 404 ''User not found'' NoBody, d)
      | Some u \<Rightarrow>
          if f = Some CartFindAll then (internal_error, d)
          else
            let cartItems =
                  map (\<lambda>c. (c, findProduct (products d) (cart_productId c)))
                    (filter (\<lambda>c. cart_userId c = user_id u) (carts d))
            in if length cartItems = 0 then (Reply 200 ''Cart is empty'' (CartItems []), d)
               else (Reply 200 ''Cart items retrieved successfully'' (CartItems cartItems), d)))"

text \<open>updateCartQuantity: the row must exist; quantity and price are overwritten.\<close>

definition updateCartQuantity :: "fault \<Rightarrow> cart_req \<Rightarrow> db \<Rightarrow> reply \<times> db" where
  "updateCartQuantity f rq d =
     (if cart_req_incomplete rq then
        (Reply 400 ''Email, productId and quantity are required'' NoBody, d)
      else if f = Some UserFindOne then (internal_error, d)
      else (case findUser (users d) (cq_email rq) of
        None \<Rightarrow> (Reply 404 ''User not found'' NoBody, d)
      | Some u \<Rightarrow>
          if f = Some ProductFindOne then (internal_error, d)
          else (case findProduct (products d) (cq_productId rq) of
            None \<Rightarrow> (Reply 404 ''Product not found'' NoBody, d)
          | Some p \<Rightarrow>
              if f = Some CartFindOne then (internal_error, d)
              else (case findCart (carts d) (user_id u) (cq_productId rq) of
                None \<Rightarrow> (Reply 404 ''Cart item not found'' NoBody, d)
              | Some c \<Rightarrow>
                  if cq_quantity rq > stock p then
                    (Reply 400 (''Only '' @ show_int (stock p) @ '' items left in stock'') NoBody, d)
                  else
                    let c' = c\<lparr>cart_quantity := cq_quantity rq,
                               cart_price := cq_quantity rq * price p\<rparr>
                    in if f = Some CartSave then (internal_error, d)
                    else (Reply 200 ''Cart item quantity updated successfully'' (CartItem c'),
                          d\<lparr>carts := saveCart c' (carts d)\<rparr>)))))"

text \<open>
  removeCartItem: deletes the row with this id when it belongs to the user. The id is a
  path parameter, a string that is not empty, so \<open>!cartId\<close> does not hold of it, whatever
  number it spells.
\<close>

definition removeCartItem :: "fault \<Rightarrow> string \<Rightarrow> int \<Rightarrow> db \<Rightarrow> reply \<times> db" where
  "removeCartItem f email cartId d =
     (if email = [] then (Reply 400 ''Email and CartId are required'' NoBody, d)
      else if f = Some UserFindOne then (internal_error, d)
      else (case findUser (users d) email of
        None \<Rightarrow> (Reply 404 ''User not found'' NoBody, d)
      | Some u \<Rightarrow>
          if f = Some CartFindOne then (internal_error, d)
          else (case findCartById (carts d) cartId (user_id u) of
            None \<Rightarrow> (Reply 404 ''Cart item not found'' NoBody, d)
          | Some c \<Rightarrow>
              if f = Some CartDestroy then (internal_error, d)
              else (Reply 200 ''Cart item removed successfully'' NoBody,
                    d\<lparr>carts := filter (\<lambda>x. cart_id x \<noteq> cart_id c) (carts d)\<rparr>))))"

section \<open>Sequences of requests\<close>

text \<open>
  The requests that place or cancel orders or work on carts, each with the fault the
  store shows while it is served, and a server that handles them one after the other.
\<close>

datatype request =
    PlaceOrder fault order_req
  | GetOrdersByEmail fault string
  | CancelOrder fault string int
  | AddToCart fault cart_req
  | GetAllCart fault string
  | UpdateCartQuantity fault cart_req
  | RemoveCartItem fault string int

fun handle :: "request \<Rightarrow> db \<Rightarrow> reply \<times> db" where
  "handle (PlaceOrder f rq) d = placeOrder f rq d"
| "handle (GetOrdersByEmail f e) d = getallOrdersByEmail f e d"
| "handle (CancelOrder f e i) d = cancelOrderById f e i d"
| "handle (AddToCart f rq) d = addToCart f rq d"
| "handle (GetAllCart f e) d = getallCartItems f e d"
| "handle (UpdateCartQuantity f rq) d = updateCartQuantity f rq d"
| "handle (RemoveCartItem f e i) d = removeCartItem f e i d"

fun serve :: "request list \<Rightarrow> db \<Rightarrow> reply list \<times> db" where
  "serve [] d = ([], d)"
| "serve (r # rs) d =
     (let (a, d1) = handle r d; (as, d2) = serve rs d1 in (a # as, d2))"

text \<open>
  The quantity a request takes from the stock of product \<open>pid\<close>: that of an order
  placement for \<open>pid\<close> that was answered 201, and nothing otherwise.
\<close>

fun placed :: "int \<Rightarrow> request \<Rightarrow> reply \<Rightarrow> int" where
  "placed pid (PlaceOrder f rq) (Reply s m b) =
     (if s = 201 \<and> rq_productId rq = pid then rq_quantity rq else 0)"
| "placed pid r a = 0"

fun placed_total :: "int \<Rightarrow> request list \<Rightarrow> reply list \<Rightarrow> int" where
  "placed_total pid (r # rs) (a # as) = placed pid r a + placed_total pid rs as"
| "placed_total pid rs as = 0"

section \<open>Concurrent order placements\<close>

text \<open>
  A handler runs without interruption from one \<open>await\<close> to the next, and other requests
  are served while it waits. For placeOrder the store changes at one point only, the
  commit, which makes the new stock and the order row durable together; what matters
  for another request is whether its own read of the product (line 36) comes before or
  after that point. A placement is therefore a task of two steps: the lookups, which
  leave it holding the product instance it read, and the rest of the handler, which
  works on that instance. A schedule names the task that takes the next step.
\<close>

datatype task =
    Fresh fault order_req
  | Looked fault order_req user product
  | Finished reply

fun step :: "task \<Rightarrow> db \<Rightarrow> task \<times> db" where
  "step (Fresh f rq) d =
     (if f = Some Begin then (Finished Rejected, d)
      else
        let d0 = d\<lparr>open_txns := open_txns d + 1\<rparr>
        in (case placeOrder_lookup f rq d0 of
          Inl r \<Rightarrow> (Finished r, d0)
        | Inr (u, p) \<Rightarrow> (Looked f rq u p, d0)))"
| "step (Looked f rq u p) d =
     (let (r, d') = placeOrder_reserve f rq u p d in (Finished r, d'))"
| "step (Finished r) d = (Finished r, d)"

fun run :: "nat list \<Rightarrow> task list \<Rightarrow> db \<Rightarrow> task list \<times> db" where
  "run [] ts d = (ts, d)"
| "run (i # sched) ts d =
     (if i < length ts then
        let (t', d') = step (ts ! i) d in run sched (ts[i := t']) d'
      else run sched ts d)"

fun answered :: "task \<Rightarrow> nat option" where
  "answered (Finished r) = status r"
| "answered t = None"

section \<open>A small shop\<close>

text \<open>
  One customer and one product, five in stock at a unit price of 1.00, that is, of 100
  hundredths.
\<close>

definition alice :: user where
  "alice = \<lparr>user_id = 1, user_email = ''alice@example.com''\<rparr>"

definition widget :: product where
  "widget = \<lparr>product_id = 7, product_name = ''Widget'', price = 100, stock = 5\<rparr>"

definition shop :: db where
  "shop = \<lparr>users = [alice], products = [widget], orders = [], carts = [],
            order_seq = 1, cart_seq = 1, open_txns = 0\<rparr>"

definition order_for :: "int \<Rightarrow> order_req" where
  "order_for q =
     \<lparr>rq_email = ''alice@example.com'', rq_productId = 7, rq_quantity = q,
      rq_address = ''1 Main St'', rq_city = ''Springfield'', rq_zipcode = ''12345'',
      rq_deliveryDate = ''2025-03-01'', rq_courierName = ''FedEx''\<rparr>"

definition cart_for :: "int \<Rightarrow> cart_req" where
  "cart_for q = \<lparr>cq_email = ''alice@example.com'', cq_productId = 7, cq_quantity = q\<rparr>"

lemmas shop_defs = shop_def alice_def widget_def order_for_def cart_for_def

text \<open>
  A day at the shop: an order for three, its cancellation, two put in the cart, and a
  second order for three, which the remaining stock of two cannot serve.
\<close>

definition busy_day :: "request list" where
  "busy_day = [PlaceOrder None (order_for 3), CancelOrder None ''alice@example.com'' 1,
               AddToCart None (cart_for 2), PlaceOrder None (order_for 3)]"

lemmas handler_defs = placeOrder_def placeOrder_lookup_def placeOrder_reserve_def
  cancelOrderById_def addToCart_def updateCartQuantity_def removeCartItem_def
  getallOrdersByEmail_def getallCartItems_def
  order_req_incomplete_def cart_req_incomplete_def
  findUser_def findProduct_def findOrder_def findCart_def findCartById_def
  saveStock_def saveCart_def internal_error_def

text \<open>
  The cart row of the customer for the product, and the shop holding that row; the order
  for three, and the shop after it was placed.
\<close>

definition line :: "int \<Rightarrow> money \<Rightarrow> cart" where
  "line q m =
     \<lparr>cart_id = 1, cart_userId = 1, cart_productId = 7, cart_quantity = q, cart_price = m\<rparr>"

definition shop_with :: "cart \<Rightarrow> db" where
  "shop_with c = shop\<lparr>carts := [c], cart_seq := 2\<rparr>"

definition sold :: order where
  "sold = \<lparr>order_id = 1, order_userId = 1, order_productId = 7, totalAmount = 300,
           order_quantity = 3, order_status = ''Pending'', address = ''1 Main St'',
           city = ''Springfield'', zipcode = ''12345'', deliveryDate = ''2025-03-01'',
           courierName = ''FedEx''\<rparr>"

definition shop_after_order :: db where
  "shop_after_order =
     shop\<lparr>products := [widget\<lparr>stock := 2\<rparr>], orders := [sold], order_seq := 2\<rparr>"

text \<open>The shop with the product at another price, in hundredths.\<close>

definition shop_at :: "money \<Rightarrow> db" where
  "shop_at c = shop\<lparr>products := [widget\<lparr>price := c\<rparr>]\<rparr>"

lemmas number_defs = nearest_double_def log_floor_def places.simps round_half_even_def
  to_number_def multiply_def Let_def

section \<open>Numbers at work\<close>

text \<open>
  The products that occur below: 1.00 by 3, 100.00 by 3, 19.99 by 1 and 0.10 by 3, the
  decimals that stand for them, and their texts.
\<close>

lemma product_100_3: "multiply (to_number 100 100) (to_number 3 1) = (6755399441055744, - 51)"
  by (simp add: number_defs)

lemma product_10000_3:
  "multiply (to_number 10000 100) (to_number 3 1) = (5277655813324800, - 44)"
  by (simp add: number_defs)

lemma product_1999_1:
  "multiply (to_number 1999 100) (to_number 1 1) = (5626684784446013, - 48)"
  by (simp add: number_defs)

lemma product_10_3: "multiply (to_number 10 100) (to_number 3 1) = (5404319552844596, - 54)"
  by (simp add: number_defs)

lemma shortest_3: "shortest (6755399441055744, - 51) = (3, 0)"
  apply (simp add: shortest_def del: Let_def)
  apply (simp add: shortest_from.simps decimal_double_def strip_zeros.simps number_defs)
  done

lemma shortest_300: "shortest (5277655813324800, - 44) = (3, 2)"
  apply (simp add: shortest_def del: Let_def)
  apply (simp add: shortest_from.simps decimal_double_def strip_zeros.simps number_defs)
  done

lemma shortest_1999: "shortest (5626684784446013, - 48) = (1999, - 2)"
  apply (simp add: shortest_def del: Let_def)
  apply (simp add: shortest_from.simps decimal_double_def strip_zeros.simps number_defs)
  done

lemma shortest_03: "shortest (5404319552844596, - 54) = (30000000000000004, - 17)"
  apply (simp add: shortest_def del: Let_def)
  apply (simp add: shortest_from.simps decimal_double_def strip_zeros.simps number_defs)
  done

lemma order_total_100_3: "order_total 100 3 = 300"
  by (simp add: order_total_def product_100_3 shortest_3 decimal_value_def)

lemma order_total_10_3: "order_total 10 3 = 30 + 4 / 10 ^ 15"
  by (simp add: order_total_def product_10_3 shortest_03 decimal_value_def)

lemma two_zeros: "replicate 2 c = [c, c]"
  by (simp add: numeral_2_eq_2)

lemma number_text_3: "number_text (6755399441055744, - 51) = ''3''"
  by (simp add: number_text_def shortest_3 digits.simps digit_def two_zeros)

lemma number_text_300: "number_text (5277655813324800, - 44) = ''300''"
  by (simp add: number_text_def shortest_300 digits.simps digit_def two_zeros)

lemma number_text_1999: "number_text (5626684784446013, - 48) = ''19.99''"
  by (simp add: number_text_def shortest_1999 digits.simps digit_def two_zeros)

lemmas text_defs = numeric2_text_def digits.simps digit_def numeric_in_def signed_def
  is_digit_def read_digits_def digit_value_def numeric_10_2_def Let_def

lemma price_text_3: "Option.bind (numeric_in (numeric2_text 300 @ ''3'')) numeric_10_2 = Some 300"
  by (simp add: text_defs)

lemma price_text_300:
  "numeric2_text 20000 @ ''300'' = ''200.00300'' \<and>
   Option.bind (numeric_in ''200.00300'') numeric_10_2 = Some 20000"
  by (simp add: text_defs)

lemma price_text_1999:
  "numeric2_text 1999 @ ''19.99'' = ''19.9919.99'' \<and>
   Option.bind (numeric_in ''19.9919.99'') numeric_10_2 = None"
  by (simp add: text_defs)

section \<open>Lookups and writes\<close>

lemma find_holds: "find P xs = Some x \<Longrightarrow> P x"
  by (induction xs) (auto split: if_splits)

lemma findProduct_id: "findProduct ps i = Some p \<Longrightarrow> product_id p = i"
  unfolding findProduct_def by (drule find_holds) simp

lemma findProduct_saveStock:
  "findProduct ps i = Some p \<Longrightarrow>
   findProduct (saveStock (p\<lparr>stock := s\<rparr>) ps) i = Some (p\<lparr>stock := s\<rparr>)"
  by (induction ps) (auto simp: findProduct_def saveStock_def split: if_splits)

lemma findProduct_saveStock_other:
  "i \<noteq> product_id q \<Longrightarrow> findProduct (saveStock q ps) i = findProduct ps i"
  by (induction ps) (auto simp: findProduct_def saveStock_def)

section \<open>The stock ledger\<close>

text \<open>
  What placeOrder can do: either it does not answer 201 and no table has changed, or it
  answers 201, the product was found with enough stock, and the product table holds the
  decremented stock.
\<close>

lemma placeOrder_cases:
  assumes "placeOrder f rq d = (a, d')"
  shows "(status a \<noteq> Some 201 \<and> users d' = users d \<and> products d' = products d \<and>
          orders d' = orders d \<and> carts d' = carts d)
       \<or> (\<exists>p. status a = Some 201 \<and>
            findProduct (products d) (rq_productId rq) = Some p \<and>
            rq_quantity rq \<le> stock p \<and>
            products d' = saveStock (p\<lparr>stock := stock p - rq_quantity rq\<rparr>) (products d))"
  using assms
  by (auto simp: placeOrder_def placeOrder_lookup_def placeOrder_reserve_def Let_def
      internal_error_def split: if_splits option.splits)

lemma placed_not_201: "status a \<noteq> Some 201 \<Longrightarrow> placed pid r a = 0"
  by (cases "(pid, r, a)" rule: placed.cases) auto

lemma placed_201:
  "status a = Some 201 \<Longrightarrow>
   placed pid (PlaceOrder f rq) a = (if rq_productId rq = pid then rq_quantity rq else 0)"
  by (cases a) auto

text \<open>The cart handlers, the cancellation and the order listing do not write a product.\<close>

lemma other_handlers_products:
  "products (snd (addToCart f cq d)) = products d"
  "products (snd (updateCartQuantity f cq d)) = products d"
  "products (snd (removeCartItem f e i d)) = products d"
  "products (snd (getallCartItems f e d)) = products d"
  "products (snd (cancelOrderById f e i d)) = products d"
  "products (snd (getallOrdersByEmail f e d)) = products d"
  by (auto simp: addToCart_def updateCartQuantity_def removeCartItem_def getallCartItems_def
      cancelOrderById_def getallOrdersByEmail_def Let_def split: option.splits)

lemma handle_products_other:
  "\<forall>f rq. r \<noteq> PlaceOrder f rq \<Longrightarrow> products (snd (handle r d)) = products d"
  by (cases r) (simp_all add: other_handlers_products)

text \<open>
  One request: the product keeps every column but its stock, which goes down by what
  the request placed, and that is no more than there was.
\<close>

lemma handle_stock:
  assumes "handle r d = (a, d')" and "findProduct (products d) pid = Some p"
  shows "findProduct (products d') pid = Some (p\<lparr>stock := stock p - placed pid r a\<rparr>) \<and>
         placed pid r a \<le> max 0 (stock p)"
proof (cases "\<exists>f rq. r = PlaceOrder f rq")
  case False
  then have "products d' = products d"
    using handle_products_other [of r d] assms(1) by simp
  moreover from False have "placed pid r a = 0"
    by (cases "(pid, r, a)" rule: placed.cases) auto
  ultimately show ?thesis using assms(2) by simp
next
  case True
  then obtain f rq where r: "r = PlaceOrder f rq" by blast
  with assms(1) have po: "placeOrder f rq d = (a, d')" by simp
  from placeOrder_cases [OF po] show ?thesis
  proof (elim disjE conjE exE)
    assume "status a \<noteq> Some 201" "products d' = products d"
    then show ?thesis using assms(2) r by (simp add: placed_not_201)
  next
    fix q
    assume ok: "status a = Some 201"
      and q: "findProduct (products d) (rq_productId rq) = Some q"
      and le: "rq_quantity rq \<le> stock q"
      and d': "products d' = saveStock (q\<lparr>stock := stock q - rq_quantity rq\<rparr>) (products d)"
    show ?thesis
    proof (cases "rq_productId rq = pid")
      case True
      with q assms(2) have "q = p" by simp
      with True ok d' q r le show ?thesis
        by (simp add: findProduct_saveStock placed_201)
    next
      case False
      moreover have "product_id q = rq_productId rq" by (rule findProduct_id [OF q])
      ultimately show ?thesis using ok d' r assms(2)
        by (simp add: findProduct_saveStock_other placed_201)
    qed
  qed
qed

text \<open>
  C1. For a product whose stock is not negative, after any sequence of order
  placements, order listings, cancellations and cart operations, served one after the
  other and whatever their outcome, the product is the same but for its stock, which is
  the initial stock minus the quantities of the placements for it that were answered
  201, and is not negative. Cancellations give nothing back.
\<close>

theorem stock_ledger:
  assumes "findProduct (products d) pid = Some p"
    and "0 \<le> stock p"
    and "serve rs d = (as, d')"
  shows "findProduct (products d') pid = Some (p\<lparr>stock := stock p - placed_total pid rs as\<rparr>) \<and>
         0 \<le> stock p - placed_total pid rs as"
  using assms
proof (induction rs arbitrary: d p as d')
  case Nil
  then show ?case by auto
next
  case (Cons r rs)
  obtain a d1 where h: "handle r d = (a, d1)" by (cases "handle r d")
  obtain bs d2 where s: "serve rs d1 = (bs, d2)" by (cases "serve rs d1")
  from Cons.prems(3) h s have eq: "as = a # bs" "d' = d2" by auto
  let ?p1 = "p\<lparr>stock := stock p - placed pid r a\<rparr>"
  from handle_stock [OF h Cons.prems(1)] Cons.prems(2) have
    p1: "findProduct (products d1) pid = Some ?p1" and nn: "0 \<le> stock ?p1"
    by auto
  from Cons.IH [OF p1 nn s] eq show ?case
    by (simp add: algebra_simps)
qed

lemma busy_day_run:
  "map status (fst (serve busy_day shop)) = [Some 201, Some 200, Some 200, Some 400] \<and>
   map stock (products (snd (serve busy_day shop))) = [2] \<and>
   map order_status (orders (snd (serve busy_day shop))) = [''Cancelled''] \<and>
   placed_total 7 busy_day (fst (serve busy_day shop)) = 3"
  by (simp add: busy_day_def shop_defs handler_defs Let_def)

theorem stock_ledger_witness:
  "findProduct (products shop) 7 = Some widget \<and> stock widget = 5 \<and>
   map status (fst (serve busy_day shop)) = [Some 201, Some 200, Some 200, Some 400] \<and>
   placed_total 7 busy_day (fst (serve busy_day shop)) = 3 \<and>
   findProduct (products (snd (serve busy_day shop))) 7 = Some (widget\<lparr>stock := 2\<rparr>)"
proof -
  have h1: "findProduct (products shop) 7 = Some widget"
    by (simp add: shop_defs findProduct_def)
  have h2: "0 \<le> stock widget" by (simp add: widget_def)
  have h3: "serve busy_day shop = (fst (serve busy_day shop), snd (serve busy_day shop))"
    by simp
  have h4: "stock widget = 5" by (simp add: widget_def)
  from stock_ledger [OF h1 h2 h3] busy_day_run h1 h4 show ?thesis
    by simp
qed

section \<open>Placing an order\<close>

text \<open>
  C2. Whenever placeOrder does not answer 201 (a missing field, an unknown user or
  product, insufficient stock, a store call that throws before or after the decrement,
  or a transaction that could not be begun), the user, product, order and cart tables
  are what they were before the call. A transaction that was begun for such a call is
  left open, never committed.
\<close>

theorem placeOrder_atomic:
  assumes "status (fst (placeOrder f rq d)) \<noteq> Some 201"
  shows "users (snd (placeOrder f rq d)) = users d \<and>
         products (snd (placeOrder f rq d)) = products d \<and>
         orders (snd (placeOrder f rq d)) = orders d \<and>
         carts (snd (placeOrder f rq d)) = carts d"
proof -
  have "placeOrder f rq d = (fst (placeOrder f rq d), snd (placeOrder f rq d))" by simp
  from placeOrder_cases [OF this] assms show ?thesis by blast
qed

theorem placeOrder_atomic_witness:
  "fst (placeOrder (Some OrderCreate) (order_for 3) shop) =
     Reply 500 ''Internal server error'' NoBody \<and>
   products (snd (placeOrder (Some OrderCreate) (order_for 3) shop)) = [widget] \<and>
   orders (snd (placeOrder (Some OrderCreate) (order_for 3) shop)) = [] \<and>
   open_txns (snd (placeOrder (Some OrderCreate) (order_for 3) shop)) = 1 \<and>
   stock widget = 5"
proof -
  have r: "fst (placeOrder (Some OrderCreate) (order_for 3) shop) =
      Reply 500 ''Internal server error'' NoBody"
    by (simp add: shop_defs handler_defs)
  then have "status (fst (placeOrder (Some OrderCreate) (order_for 3) shop)) \<noteq> Some 201"
    by simp
  from placeOrder_atomic [OF this] r show ?thesis
    by (simp add: shop_defs handler_defs Let_def)
qed

text \<open>The decimal rendering is read back as the number it was made from.\<close>

lemma digit_value_digit: "digit_value (digit n) = n mod 10"
proof -
  have "n mod 10 < 10" by simp
  then have "n mod 10 \<in> {0, 1, 2, 3, 4, 5, 6, 7, 8, 9}"
    by (simp only: insert_iff empty_iff) arith
  then show ?thesis
    by (auto simp: digit_def digit_value_def)
qed

lemma read_show_nat: "read_nat (show_nat n) = n"
proof (induction n rule: show_nat.induct)
  case (1 n)
  show ?case
  proof (cases "n < 10")
    case True
    then show ?thesis
      by (simp add: show_nat.simps [of n] read_nat_def digit_value_digit)
  next
    case False
    with 1 have "read_nat (show_nat (n div 10)) = n div 10" by simp
    with False show ?thesis
      by (simp add: show_nat.simps [of n] read_nat_def digit_value_digit)
  qed
qed

text \<open>
  C3. For a complete request of an existing user for an existing product, with a
  quantity greater than the product's stock and a store that answers the lookups,
  placeOrder answers 400 with the message \<open>Only N items left in stock\<close>, N the stock in
  decimal, and leaves the product and order tables as they were.
\<close>

theorem placeOrder_insufficient_stock:
  assumes "\<not> order_req_incomplete rq"
    and "findUser (users d) (rq_email rq) = Some u"
    and "findProduct (products d) (rq_productId rq) = Some p"
    and "stock p < rq_quantity rq"
    and "f \<noteq> Some Begin" and "f \<noteq> Some UserFindOne" and "f \<noteq> Some ProductFindOne"
  shows "fst (placeOrder f rq d) =
           Reply 400 (''Only '' @ show_int (stock p) @ '' items left in stock'') NoBody \<and>
         products (snd (placeOrder f rq d)) = products d \<and>
         orders (snd (placeOrder f rq d)) = orders d \<and>
         findProduct (products (snd (placeOrder f rq d))) (rq_productId rq) = Some p"
  using assms
  by (simp add: placeOrder_def placeOrder_lookup_def placeOrder_reserve_def)

theorem placeOrder_insufficient_stock_witness:
  "fst (placeOrder None (order_for 6) (shop\<lparr>products := [widget\<lparr>stock := 3\<rparr>]\<rparr>)) =
     Reply 400 ''Only 3 items left in stock'' NoBody \<and>
   products (snd (placeOrder None (order_for 6) (shop\<lparr>products := [widget\<lparr>stock := 3\<rparr>]\<rparr>))) =
     [widget\<lparr>stock := 3\<rparr>]"
  using placeOrder_insufficient_stock
    [of "order_for 6" "shop\<lparr>products := [widget\<lparr>stock := 3\<rparr>]\<rparr>" alice
        "widget\<lparr>stock := 3\<rparr>" None]
  by (simp add: shop_defs order_req_incomplete_def findUser_def findProduct_def
      show_int_def show_nat.simps digit_def)

text \<open>
  A complete request of an existing user for an existing product, with a quantity of at
  most the product's stock and a store that answers every call: placeOrder answers 201,
  commits, appends one order row with status \<open>Pending\<close>, the user, the product, the
  quantity and the total that the multiplication of numbers gives, and leaves the
  product with its stock less the quantity.
\<close>

lemma placeOrder_accepted:
  assumes "\<not> order_req_incomplete rq"
    and "findUser (users d) (rq_email rq) = Some u"
    and "findProduct (products d) (rq_productId rq) = Some p"
    and "rq_quantity rq \<le> stock p"
  shows "\<exists>ord.
           fst (placeOrder None rq d) =
             Reply 201 ''Order placed successfully'' (OrderBody ord) \<and>
           orders (snd (placeOrder None rq d)) = orders d @ [ord] \<and>
           order_status ord = ''Pending'' \<and>
           totalAmount ord = order_total (price p) (rq_quantity rq) \<and>
           order_userId ord = user_id u \<and>
           order_productId ord = rq_productId rq \<and>
           order_quantity ord = rq_quantity rq \<and>
           findProduct (products (snd (placeOrder None rq d))) (rq_productId rq) =
             Some (p\<lparr>stock := stock p - rq_quantity rq\<rparr>) \<and>
           open_txns (snd (placeOrder None rq d)) = open_txns d"
  using assms
  by (simp add: placeOrder_def placeOrder_lookup_def placeOrder_reserve_def Let_def
      findProduct_saveStock)

text \<open>
  C4. An order for three of a product at 0.10 each, five in stock: placeOrder answers
  201, the stock goes from five to two, and the order row is \<open>Pending\<close> with three as
  its quantity, but its total is 0.30000000000000004 (in hundredths, 30 and four parts
  in \<open>10 ^ 15\<close>), not the 0.30 that the unit price times the quantity is.
\<close>

theorem placeOrder_total_inexact:
  "placeOrder None (order_for 3) (shop_at 10) =
     (Reply 201 ''Order placed successfully'' (OrderBody (sold\<lparr>totalAmount := 30 + 4 / 10 ^ 15\<rparr>)),
      shop\<lparr>products := [widget\<lparr>price := 10, stock := 2\<rparr>],
           orders := [sold\<lparr>totalAmount := 30 + 4 / 10 ^ 15\<rparr>], order_seq := 2\<rparr>) \<and>
   (of_int (price (widget\<lparr>price := 10\<rparr>) * rq_quantity (order_for 3)) :: amount) = 30 \<and>
   30 + 4 / 10 ^ 15 \<noteq> (30 :: amount)"
  by (simp add: shop_at_def shop_defs sold_def handler_defs Let_def order_total_10_3)

section \<open>Two placements at once\<close>

text \<open>A task that takes its two steps with nothing in between is the handler.\<close>

lemma run_alone:
  "run [0, 0] [Fresh f rq] d = ([Finished (fst (placeOrder f rq d))], snd (placeOrder f rq d))"
  by (simp add: placeOrder_def Let_def split: sum.splits prod.splits)

text \<open>
  Served one after the other, two placements for the same product that are both
  answered 201 ask together for no more than the stock there was.
\<close>

lemma placements_in_turn:
  assumes p: "findProduct (products d) pid = Some p" and nn: "0 \<le> stock p"
    and ids: "rq_productId rqA = pid" "rq_productId rqB = pid"
    and run: "serve [PlaceOrder fA rqA, PlaceOrder fB rqB] d = ([a, b], d')"
    and ok: "status a = Some 201" "status b = Some 201"
  shows "rq_quantity rqA + rq_quantity rqB \<le> stock p"
proof -
  obtain d1 where a: "handle (PlaceOrder fA rqA) d = (a, d1)"
    and b: "handle (PlaceOrder fB rqB) d1 = (b, d')"
    using run by (auto split: prod.splits)
  from handle_stock [OF a p] ok(1) ids(1) nn have
    p1: "findProduct (products d1) pid = Some (p\<lparr>stock := stock p - rq_quantity rqA\<rparr>)"
    and le1: "rq_quantity rqA \<le> stock p"
    by (auto simp: placed_201)
  from handle_stock [OF b p1] ok(2) ids(2) le1 show ?thesis
    by (auto simp: placed_201)
qed

text \<open>
  C5. Two placements of three each against a stock of five, both reading the product
  before either writes: both are answered 201, two order rows of three each are stored,
  and the stock ends at two. The claim that two such requests never both succeed does
  not hold of this handler.
\<close>

theorem placeOrder_oversells:
  "map answered
     (fst (run [0, 1, 0, 1] [Fresh None (order_for 3), Fresh None (order_for 3)] shop)) =
     [Some 201, Some 201] \<and>
   map order_quantity
     (orders (snd (run [0, 1, 0, 1] [Fresh None (order_for 3), Fresh None (order_for 3)] shop))) =
     [3, 3] \<and>
   map stock (products shop) = [5] \<and>
   map stock
     (products (snd (run [0, 1, 0, 1] [Fresh None (order_for 3), Fresh None (order_for 3)] shop))) =
     [2]"
  by (simp add: shop_defs handler_defs Let_def)

section \<open>Listing and cancelling orders\<close>

text \<open>
  C9. Listing the orders of an email address that no user has is answered 400 with the
  message \<open>User not found\<close>, not 404.
\<close>

theorem getallOrdersByEmail_unknown_user:
  "findUser (users shop) ''bob@example.com'' = None \<and>
   getallOrdersByEmail None ''bob@example.com'' shop =
     (Reply 400 ''User not found'' NoBody, shop)"
  by (simp add: getallOrdersByEmail_def findUser_def shop_defs)

lemma findOrder_cancel:
  "findOrder os i uid = Some x \<Longrightarrow>
   findOrder (map (\<lambda>y. if order_id y = i \<and> order_userId y = uid
                         then y\<lparr>order_status := s\<rparr> else y) os) i uid =
     Some (x\<lparr>order_status := s\<rparr>)"
  by (induction os) (auto simp: findOrder_def split: if_splits)

text \<open>
  C8. Cancelling a \<open>Pending\<close> order of the user is answered 200 and sets the status of
  that order to \<open>Cancelled\<close>; every other order row, every other column of that row and
  every other part of the store, the product table with it, is unchanged, and
  cancelling the same order again is answered 400, \<open>Order is already cancelled\<close>, and
  changes nothing.
\<close>

theorem cancelOrderById_only_status:
  assumes "findUser (users d) e = Some u"
    and "findOrder (orders d) i (user_id u) = Some x"
    and "order_status x = ''Pending''"
  shows "fst (cancelOrderById None e i d) =
           Reply 200 ''Order cancelled successfully'' (CancelInfo i (user_email u)) \<and>
         findOrder (orders (snd (cancelOrderById None e i d))) i (user_id u) =
           Some (x\<lparr>order_status := ''Cancelled''\<rparr>) \<and>
         list_all2 (\<lambda>y y'. y' = (if order_id y = i \<and> order_userId y = user_id u
                                  then y\<lparr>order_status := ''Cancelled''\<rparr> else y))
           (orders d) (orders (snd (cancelOrderById None e i d))) \<and>
         snd (cancelOrderById None e i d) =
           d\<lparr>orders := orders (snd (cancelOrderById None e i d))\<rparr> \<and>
         products (snd (cancelOrderById None e i d)) = products d \<and>
         cancelOrderById None e i (snd (cancelOrderById None e i d)) =
           (Reply 400 ''Order is already cancelled'' NoBody, snd (cancelOrderById None e i d))"
  using assms
  by (simp add: cancelOrderById_def findOrder_cancel list_all2_map2 list_all2_same)

theorem cancelOrderById_only_status_witness:
  "snd (placeOrder None (order_for 3) shop) = shop_after_order \<and>
   cancelOrderById None ''alice@example.com'' 1 shop_after_order =
     (Reply 200 ''Order cancelled successfully'' (CancelInfo 1 ''alice@example.com''),
      shop_after_order\<lparr>orders := [sold\<lparr>order_status := ''Cancelled''\<rparr>]\<rparr>) \<and>
   cancelOrderById None ''alice@example.com'' 1
       (shop_after_order\<lparr>orders := [sold\<lparr>order_status := ''Cancelled''\<rparr>]\<rparr>) =
     (Reply 400 ''Order is already cancelled'' NoBody,
      shop_after_order\<lparr>orders := [sold\<lparr>order_status := ''Cancelled''\<rparr>]\<rparr>) \<and>
   map stock (products shop_after_order) = [2] \<and>
   map stock (products (snd (cancelOrderById None ''alice@example.com'' 1 shop_after_order))) =
     [2]"
proof -
  have h1: "findUser (users shop_after_order) ''alice@example.com'' = Some alice"
    by (simp add: shop_after_order_def shop_defs findUser_def)
  have h2: "findOrder (orders shop_after_order) 1 (user_id alice) = Some sold"
    by (simp add: shop_after_order_def shop_defs findOrder_def sold_def)
  have h3: "order_status sold = ''Pending''"
    by (simp add: sold_def)
  have e: "snd (cancelOrderById None ''alice@example.com'' 1 shop_after_order) =
      shop_after_order\<lparr>orders := [sold\<lparr>order_status := ''Cancelled''\<rparr>]\<rparr>"
    by (simp add: shop_after_order_def shop_defs sold_def handler_defs)
  have p: "snd (placeOrder None (order_for 3) shop) = shop_after_order"
    by (simp add: shop_after_order_def shop_defs sold_def handler_defs Let_def
        order_total_100_3)
  have s: "map stock (products shop_after_order) = [2]"
    by (simp add: shop_after_order_def shop_defs)
  from cancelOrderById_only_status [OF h1 h2 h3] e p s show ?thesis
    by (simp add: alice_def prod_eq_iff)
qed

section \<open>The cart\<close>


lemma findCart_None_filter:
  "findCart cs uid pid = None \<Longrightarrow>
   filter (\<lambda>x. cart_userId x = uid \<and> cart_productId x = pid) cs = []"
  by (induction cs) (auto simp: findCart_def split: if_splits)


text \<open>
  The first add: with no row of the user for the product, an addToCart that passes its
  checks appends one row, the only one of the pair, with the quantity asked for and the
  price unit price times quantity. No addToCart, whatever its outcome, writes the
  product table.
\<close>

lemma addToCart_first:
  assumes "\<not> cart_req_incomplete rq"
    and "findUser (users d) (cq_email rq) = Some u"
    and "findProduct (products d) (cq_productId rq) = Some p"
    and "cq_quantity rq \<le> stock p"
    and "findCart (carts d) (user_id u) (cq_productId rq) = None"
  shows "\<exists>c. fst (addToCart None rq d) =
               Reply 200 ''Product added to cart successfully'' (CartItem c) \<and>
             carts (snd (addToCart None rq d)) = carts d @ [c] \<and>
             filter (\<lambda>x. cart_userId x = user_id u \<and> cart_productId x = cq_productId rq)
               (carts (snd (addToCart None rq d))) = [c] \<and>
             cart_quantity c = cq_quantity rq \<and>
             cart_price c = price p * cq_quantity rq \<and>
             products (snd (addToCart None rq d)) = products d"
  using assms
  by (auto simp: addToCart_def Let_def findCart_None_filter)

text \<open>
  C6. At a unit price of 100.00, an add of two and then an add of three are both
  answered 200 and leave one row, with quantity five, but with the price 200.00 and not
  500.00: the second add appends the text \<open>300\<close> to the text \<open>200.00\<close>, and the store
  rounds \<open>200.00300\<close> to two places. At a unit price of 19.99, the second of two adds of
  one is answered 500 and changes nothing: \<open>19.9919.99\<close> is no decimal. The product is
  not written in either case.
\<close>

theorem addToCart_appends_text:
  "serve [AddToCart None (cart_for 2), AddToCart None (cart_for 3)] (shop_at 10000) =
     ([Reply 200 ''Product added to cart successfully'' (CartItem (line 2 20000)),
       Reply 200 ''Product added to cart successfully'' (CartInstance 1 1 7 5 ''200.00300'')],
      (shop_at 10000)\<lparr>carts := [line 5 20000], cart_seq := 2\<rparr>) \<and>
   price (widget\<lparr>price := 10000\<rparr>) * (2 + 3) = 50000 \<and>
   serve [AddToCart None (cart_for 1), AddToCart None (cart_for 1)] (shop_at 1999) =
     ([Reply 200 ''Product added to cart successfully'' (CartItem (line 1 1999)),
       Reply 500 ''Internal server error'' NoBody],
      (shop_at 1999)\<lparr>carts := [line 1 1999], cart_seq := 2\<rparr>)"
  by (simp add: shop_at_def shop_defs line_def handler_defs Let_def
      product_10000_3 number_text_300 price_text_300
      product_1999_1 number_text_1999 price_text_1999)



text \<open>
  C10. For a complete request of an existing user for an existing product, with lookups
  that do not throw, addToCart refuses for lack of stock exactly when the stock is less
  than the quantity of the request, whatever the cart holds. And there are a shop with
  an empty cart, a product and two requests of the same user for it, each with a
  quantity of at most the stock, both answered 200: the first leaves one row with its
  quantity, the second leaves that one row with the sum of the two quantities, which is
  more than the stock; the product table is what it was.
\<close>

theorem addToCart_checks_request_only:
  assumes "\<not> cart_req_incomplete rq"
    and "findUser (users d) (cq_email rq) = Some u"
    and "findProduct (products d) (cq_productId rq) = Some p"
    and "f \<noteq> Some UserFindOne" and "f \<noteq> Some ProductFindOne"
  shows "(fst (addToCart f rq d) =
            Reply 400 (''Only '' @ show_int (stock p) @ '' items left in stock'') NoBody) =
           (stock p < cq_quantity rq) \<and>
         (\<exists>d0 rq1 rq2 p0 c1 c2.
            carts d0 = [] \<and>
            findProduct (products d0) (cq_productId rq1) = Some p0 \<and>
            cq_email rq2 = cq_email rq1 \<and> cq_productId rq2 = cq_productId rq1 \<and>
            cq_quantity rq1 \<le> stock p0 \<and> cq_quantity rq2 \<le> stock p0 \<and>
            status (fst (addToCart None rq1 d0)) = Some 200 \<and>
            carts (snd (addToCart None rq1 d0)) = [c1] \<and>
            cart_productId c1 = cq_productId rq1 \<and>
            cart_quantity c1 = cq_quantity rq1 \<and>
            status (fst (addToCart None rq2 (snd (addToCart None rq1 d0)))) = Some 200 \<and>
            carts (snd (addToCart None rq2 (snd (addToCart None rq1 d0)))) = [c2] \<and>
            cart_productId c2 = cq_productId rq1 \<and>
            cart_quantity c2 = cq_quantity rq1 + cq_quantity rq2 \<and>
            stock p0 < cart_quantity c2 \<and>
            products (snd (addToCart None rq2 (snd (addToCart None rq1 d0)))) = products d0)"
proof
  show "(fst (addToCart f rq d) =
            Reply 400 (''Only '' @ show_int (stock p) @ '' items left in stock'') NoBody) =
           (stock p < cq_quantity rq)"
    using assms
    by (auto simp: addToCart_def Let_def internal_error_def split: option.splits)
next
  have first: "addToCart None (cart_for 3) shop =
      (Reply 200 ''Product added to cart successfully'' (CartItem (line 3 300)),
       shop_with (line 3 300))"
    by (simp add: shop_with_def shop_defs line_def handler_defs Let_def)
  have second: "addToCart None (cart_for 3) (shop_with (line 3 300)) =
      (Reply 200 ''Product added to cart successfully'' (CartInstance 1 1 7 6 ''3.003''),
       shop_with (line 6 300))"
    by (simp add: shop_with_def shop_defs line_def handler_defs Let_def
        product_100_3 number_text_3 text_defs)
  have "carts shop = [] \<and>
      findProduct (products shop) (cq_productId (cart_for 3)) = Some widget \<and>
      cq_email (cart_for 3) = cq_email (cart_for 3) \<and>
      cq_productId (cart_for 3) = cq_productId (cart_for 3) \<and>
      cq_quantity (cart_for 3) \<le> stock widget \<and> cq_quantity (cart_for 3) \<le> stock widget \<and>
      status (fst (addToCart None (cart_for 3) shop)) = Some 200 \<and>
      carts (snd (addToCart None (cart_for 3) shop)) = [line 3 300] \<and>
      cart_productId (line 3 300) = cq_productId (cart_for 3) \<and>
      cart_quantity (line 3 300) = cq_quantity (cart_for 3) \<and>
      status (fst (addToCart None (cart_for 3) (snd (addToCart None (cart_for 3) shop)))) =
        Some 200 \<and>
      carts (snd (addToCart None (cart_for 3) (snd (addToCart None (cart_for 3) shop)))) =
        [line 6 300] \<and>
      cart_productId (line 6 300) = cq_productId (cart_for 3) \<and>
      cart_quantity (line 6 300) = cq_quantity (cart_for 3) + cq_quantity (cart_for 3) \<and>
      stock widget < cart_quantity (line 6 300) \<and>
      products (snd (addToCart None (cart_for 3) (snd (addToCart None (cart_for 3) shop)))) =
        products shop"
    unfolding first second snd_conv fst_conv
    by (simp add: shop_with_def shop_defs line_def findProduct_def)
  then show "\<exists>d0 rq1 rq2 p0 c1 c2.
            carts d0 = [] \<and>
            findProduct (products d0) (cq_productId rq1) = Some p0 \<and>
            cq_email rq2 = cq_email rq1 \<and> cq_productId rq2 = cq_productId rq1 \<and>
            cq_quantity rq1 \<le> stock p0 \<and> cq_quantity rq2 \<le> stock p0 \<and>
            status (fst (addToCart None rq1 d0)) = Some 200 \<and>
            carts (snd (addToCart None rq1 d0)) = [c1] \<and>
            cart_productId c1 = cq_productId rq1 \<and>
            cart_quantity c1 = cq_quantity rq1 \<and>
            status (fst (addToCart None rq2 (snd (addToCart None rq1 d0)))) = Some 200 \<and>
            carts (snd (addToCart None rq2 (snd (addToCart None rq1 d0)))) = [c2] \<and>
            cart_productId c2 = cq_productId rq1 \<and>
            cart_quantity c2 = cq_quantity rq1 + cq_quantity rq2 \<and>
            stock p0 < cart_quantity c2 \<and>
            products (snd (addToCart None rq2 (snd (addToCart None rq1 d0)))) = products d0"
    by blast
qed

theorem addToCart_checks_request_only_witness:
  "stock widget = 5 \<and>
   fst (addToCart None (cart_for 6) (shop_with (line 1 100))) =
     Reply 400 ''Only 5 items left in stock'' NoBody \<and>
   fst (addToCart None (cart_for 5) (shop_with (line 1 100))) \<noteq>
     Reply 400 ''Only 5 items left in stock'' NoBody"
proof -
  have h1: "\<not> cart_req_incomplete (cart_for 6)" "\<not> cart_req_incomplete (cart_for 5)"
    by (simp_all add: cart_for_def cart_req_incomplete_def)
  have h2: "findUser (users (shop_with (line 1 100))) (cq_email (cart_for 6)) = Some alice"
    "findUser (users (shop_with (line 1 100))) (cq_email (cart_for 5)) = Some alice"
    by (simp_all add: shop_with_def shop_defs findUser_def)
  have h3: "findProduct (products (shop_with (line 1 100))) (cq_productId (cart_for 6)) =
      Some widget"
    "findProduct (products (shop_with (line 1 100))) (cq_productId (cart_for 5)) =
      Some widget"
    by (simp_all add: shop_with_def shop_defs findProduct_def)
  have h4: "None \<noteq> Some UserFindOne" "None \<noteq> Some ProductFindOne"
    by simp_all
  have s: "stock widget = 5" by (simp add: widget_def)
  have t: "''Only '' @ show_int 5 @ '' items left in stock'' = ''Only 5 items left in stock''"
    by (simp add: show_int_def show_nat.simps digit_def)
  from addToCart_checks_request_only [OF h1(1) h2(1) h3(1) h4]
    addToCart_checks_request_only [OF h1(2) h2(2) h3(2) h4] s t
  show ?thesis by (simp add: cart_for_def)
qed

end
